theory Spec2Isabelle
  imports Complex_Main
begin

section \<open>The Rutherford scattering simulation: data model\<close>

text \<open>
  The component \<^verbatim>\<open>RutherfordSimulation\<close> of \<^verbatim>\<open>rutherford_simulation.tsx\<close> keeps its
  particles, its histogram and its time origin in refs, and the flags and sliders in
  React state variables. JavaScript numbers are modelled as real numbers (exact
  arithmetic, no rounding, no NaN or Infinity), \<^verbatim>\<open>Math.atan\<close> as \<open>arctan\<close> and
  \<^verbatim>\<open>Math.PI\<close> as \<open>pi\<close>. The values returned by \<^verbatim>\<open>Math.random()\<close> are an explicit
  sequence \<open>rnd :: nat \<Rightarrow> real\<close>; the number of values drawn so far is part of the state.

  The fields \<^verbatim>\<open>x\<close> and \<^verbatim>\<open>y\<close> of a particle are called \<open>px\<close> and \<open>py\<close> here.
\<close>

record particle =
  px :: real
  py :: real
  vx :: real
  vy :: real
  impactParameter :: real
  hasReachedNucleus :: bool
  path :: "(real \<times> real) list"

text \<open>
  The state variables of the component. A callback sees the values of the render that
  created it, so the functions below take an \<open>rstate\<close> for the values they read.
\<close>

record rstate =
  running :: bool
  counter :: nat
  nuclearCharge :: real
  alphaEnergy :: real
  showPaths :: bool
  showHistogram :: bool

type_synonym histogram = "int \<rightharpoonup> nat"

text \<open>
  The whole simulation: the current state variables (\<open>hooks\<close>), the three refs, and the
  number of random values drawn.
\<close>

record sim =
  hooks :: rstate
  particlesRef :: "particle list"
  histogramDataRef :: histogram
  startTimeRef :: "real option"
  drawn :: nat

definition WIDTH :: real where "WIDTH = 600"
definition HEIGHT :: real where "HEIGHT = 400"
definition NUCLEUS_RADIUS :: real where "NUCLEUS_RADIUS = 5"
definition MAX_PARTICLES :: nat where "MAX_PARTICLES = 100"
definition EMISSION_INTERVAL :: real where "EMISSION_INTERVAL = 100"

section \<open>The histogram\<close>

text \<open>
  \<^verbatim>\<open>for (let i = 0; i < 180; i += 10) histogramDataRef.current[i] = 0\<close>, started from the
  empty object, in the mount effect and in \<^verbatim>\<open>handleReset\<close>.
\<close>

function initBins :: "int \<Rightarrow> histogram \<Rightarrow> histogram" where
  "initBins i h = (if i < 180 then initBins (i + 10) (h(i \<mapsto> 0)) else h)"
  by pat_completeness auto
termination
  by (relation "measure (\<lambda>(i, h). nat (180 - i))") auto

declare initBins.simps [simp del]

definition initHistogram :: histogram where
  "initHistogram = initBins 0 Map.empty"

text \<open>\<^verbatim>\<open>Math.floor(Math.abs(angle) / 10) * 10\<close>\<close>

definition binKey :: "real \<Rightarrow> int" where
  "binKey angle = \<lfloor>\<bar>angle\<bar> / 10\<rfloor> * 10"

text \<open>
  Lines 81 to 84 of \<^verbatim>\<open>updateParticlePosition\<close>: the bin is incremented when the key is
  defined, and nothing happens otherwise.
\<close>

definition recordAngle :: "real \<Rightarrow> histogram \<Rightarrow> histogram" where
  "recordAngle angle h =
     (case h (binKey angle) of
        None \<Rightarrow> h
      | Some c \<Rightarrow> h(binKey angle \<mapsto> c + 1))"

text \<open>The eighteen bins 0, 10, ..., 170, and the sum of the counts over them.\<close>

definition binKeys :: "int list" where
  "binKeys = map (\<lambda>n. 10 * int n) [0..<18]"

definition binCount :: "histogram \<Rightarrow> int \<Rightarrow> nat" where
  "binCount h key = (case h key of None \<Rightarrow> 0 | Some c \<Rightarrow> c)"

definition histogramTotal :: "histogram \<Rightarrow> nat" where
  "histogramTotal h = sum_list (map (binCount h) binKeys)"

section \<open>The deflection angle\<close>

text \<open>The constant \<^verbatim>\<open>tanHalfTheta\<close> of \<^verbatim>\<open>calculateTrajectory\<close>.\<close>

definition tanHalfTheta :: "real \<Rightarrow> real \<Rightarrow> real \<Rightarrow> real" where
  "tanHalfTheta Z energy b =
     (let k = 1.44;
          alphaCharge = 2;
          scaleFactor = 5000 / (energy * energy)
      in (k * Z * alphaCharge) / (2 * energy * \<bar>b\<bar> * scaleFactor))"

text \<open>
  \<^verbatim>\<open>calculateTrajectory(particle)\<close>; \<open>u\<close> is the value that \<^verbatim>\<open>Math.random()\<close> returns
  when the impact parameter is not zero.
\<close>

definition calculateTrajectory :: "rstate \<Rightarrow> particle \<Rightarrow> real \<Rightarrow> real" where
  "calculateTrajectory v particle u =
     (let b = impactParameter particle;
          Z = nuclearCharge v;
          energy = alphaEnergy v;
          angle = (if b \<noteq> 0
                   then (2 * arctan (tanHalfTheta Z energy b)) * (0.9 + u * 0.2)
                   else 0);
          angle = angle * (180 / pi)
      in if b < 0 then - angle else angle)"

section \<open>Particles\<close>

text \<open>The guard of the deflection branch of \<^verbatim>\<open>updateParticlePosition\<close>.\<close>

definition reachesNucleus :: "particle \<Rightarrow> bool" where
  "reachesNucleus particle \<longleftrightarrow>
     \<not> hasReachedNucleus particle \<and>
     sqrt ((px particle - WIDTH / 2)\<^sup>2 + (py particle - HEIGHT / 2)\<^sup>2) \<le> NUCLEUS_RADIUS * 3"

text \<open>
  The deflection branch: the flag is set, the angle computed and recorded, the velocity
  redirected and perturbed. \<^verbatim>\<open>calculateTrajectory\<close> draws a random value (the one at
  position \<open>d\<close> of the sequence) when the impact parameter is not zero, and none
  otherwise; the two perturbations draw the next two values.
\<close>

definition deflect ::
  "rstate \<Rightarrow> (nat \<Rightarrow> real) \<Rightarrow> particle \<Rightarrow> histogram \<Rightarrow> nat \<Rightarrow> particle \<times> histogram \<times> nat" where
  "deflect v rnd particle h d =
     (let angle = calculateTrajectory v particle (rnd d);
          d1 = (if impactParameter particle \<noteq> 0 then d + 1 else d);
          h' = recordAngle angle h;
          speed = sqrt (vx particle * vx particle + vy particle * vy particle);
          angleRad = angle * (pi / 180)
      in (particle\<lparr>hasReachedNucleus := True,
                   vx := speed * cos angleRad + (rnd d1 - 0.5) * 0.2,
                   vy := speed * sin angleRad + (rnd (d1 + 1) - 0.5) * 0.2\<rparr>,
          h', d1 + 2))"

text \<open>
  \<^verbatim>\<open>updateParticlePosition(particle)\<close>: the result is the value returned to \<^verbatim>\<open>filter\<close>
  (true when the particle stays), the particle as mutated, the histogram and the number
  of random values drawn.
\<close>

definition updateParticlePosition ::
  "rstate \<Rightarrow> (nat \<Rightarrow> real) \<Rightarrow> particle \<Rightarrow> histogram \<Rightarrow> nat
     \<Rightarrow> bool \<times> particle \<times> histogram \<times> nat" where
  "updateParticlePosition v rnd particle h d =
     (case (if reachesNucleus particle then deflect v rnd particle h d
            else (particle, h, d)) of
        (p1, h1, d1) \<Rightarrow>
          let p2 = p1\<lparr>px := px p1 + vx p1, py := py p1 + vy p1\<rparr>;
              p3 = (if showPaths v \<and> length (path p2) < 100
                    then p2\<lparr>path := path p2 @ [(px p2, py p2)]\<rparr>
                    else p2)
          in (\<not> (px p3 < 0 \<or> px p3 > WIDTH \<or> py p3 < 0 \<or> py p3 > HEIGHT), p3, h1, d1))"

text \<open>\<^verbatim>\<open>createParticle()\<close>; \<open>u\<close> is the random value drawn.\<close>

definition createParticle :: "real \<Rightarrow> particle" where
  "createParticle u =
     (let y = HEIGHT / 2 + (u - 0.5) * (HEIGHT / 2);
          b = y - HEIGHT / 2
      in \<lparr>px = 0, py = y, vx = 1.5, vy = 0, impactParameter = b,
          hasReachedNucleus = False, path = [(0, y)]\<rparr>)"

text \<open>\<^verbatim>\<open>particlesRef.current.filter(updateParticlePosition)\<close>, from left to right.\<close>

fun filterParticles ::
  "rstate \<Rightarrow> (nat \<Rightarrow> real) \<Rightarrow> particle list \<Rightarrow> histogram \<Rightarrow> nat
     \<Rightarrow> particle list \<times> histogram \<times> nat" where
  "filterParticles v rnd [] h d = ([], h, d)"
| "filterParticles v rnd (p # ps) h d =
     (case updateParticlePosition v rnd p h d of
        (keep, p', h', d') \<Rightarrow>
          (case filterParticles v rnd ps h' d' of
             (qs, h'', d'') \<Rightarrow> ((if keep then p' # qs else qs), h'', d'')))"

section \<open>The animation frame and the commands\<close>

text \<open>Lines 237 to 239 of \<^verbatim>\<open>animate\<close>: \<^verbatim>\<open>!startTimeRef.current\<close> holds for null and for 0.\<close>

definition startClock :: "real \<Rightarrow> sim \<Rightarrow> sim" where
  "startClock timestamp s =
     (case startTimeRef s of
        None \<Rightarrow> s\<lparr>startTimeRef := Some timestamp\<rparr>
      | Some t \<Rightarrow> if t = 0 then s\<lparr>startTimeRef := Some timestamp\<rparr> else s)"

definition elapsed :: "real \<Rightarrow> sim \<Rightarrow> real" where
  "elapsed timestamp s = (case startTimeRef s of None \<Rightarrow> timestamp | Some t \<Rightarrow> timestamp - t)"

text \<open>The condition of line 244, read on the values \<open>v\<close> of the callback.\<close>

definition spawnCondition :: "rstate \<Rightarrow> real \<Rightarrow> sim \<Rightarrow> bool" where
  "spawnCondition v timestamp s \<longleftrightarrow>
     elapsed timestamp s > real (counter v) * EMISSION_INTERVAL \<and>
     length (particlesRef s) < MAX_PARTICLES \<and>
     running v"

text \<open>
  Lines 243 to 247: the new particle is pushed, and \<^verbatim>\<open>setCounter(prevCount => prevCount + 1)\<close>
  adds one to the current value of the counter.
\<close>

definition spawnParticle :: "rstate \<Rightarrow> (nat \<Rightarrow> real) \<Rightarrow> real \<Rightarrow> sim \<Rightarrow> sim" where
  "spawnParticle v rnd timestamp s =
     (if spawnCondition v timestamp s
      then s\<lparr>particlesRef := particlesRef s @ [createParticle (rnd (drawn s))],
             drawn := drawn s + 1,
             hooks := (hooks s)\<lparr>counter := counter (hooks s) + 1\<rparr>\<rparr>
      else s)"

text \<open>Line 250.\<close>

definition advanceParticles :: "rstate \<Rightarrow> (nat \<Rightarrow> real) \<Rightarrow> sim \<Rightarrow> sim" where
  "advanceParticles v rnd s =
     (case filterParticles v rnd (particlesRef s) (histogramDataRef s) (drawn s) of
        (ps, h, d) \<Rightarrow> s\<lparr>particlesRef := ps, histogramDataRef := h, drawn := d\<rparr>)"

text \<open>
  \<^verbatim>\<open>animate(timestamp)\<close>. \<^verbatim>\<open>drawSimulation\<close> only reads the state and paints the canvas; the
  request for the next frame is the next \<open>Frame\<close> event of a run.
\<close>

definition animate :: "rstate \<Rightarrow> (nat \<Rightarrow> real) \<Rightarrow> real \<Rightarrow> sim \<Rightarrow> sim" where
  "animate v rnd timestamp s =
     advanceParticles v rnd (spawnParticle v rnd timestamp (startClock timestamp s))"

definition handleToggleSimulation :: "sim \<Rightarrow> sim" where
  "handleToggleSimulation s =
     (let s1 = (if \<not> running (hooks s) then s\<lparr>startTimeRef := None\<rparr> else s)
      in s1\<lparr>hooks := (hooks s1)\<lparr>running := \<not> running (hooks s)\<rparr>\<rparr>)"

definition handleReset :: "sim \<Rightarrow> sim" where
  "handleReset s =
     s\<lparr>hooks := (hooks s)\<lparr>running := False, counter := 0\<rparr>,
       particlesRef := [],
       histogramDataRef := initHistogram,
       startTimeRef := None\<rparr>"

text \<open>The component after its first render and its mount effects.\<close>

definition mounted :: sim where
  "mounted =
     \<lparr>hooks = \<lparr>running = False, counter = 0, nuclearCharge = 79, alphaEnergy = 5,
               showPaths = True, showHistogram = True\<rparr>,
      particlesRef = [],
      histogramDataRef = initHistogram,
      startTimeRef = None,
      drawn = 0\<rparr>"

text \<open>
  What can happen to a mounted component: an animation frame, run by a callback that
  holds the state variables \<open>v\<close> of some render, at a timestamp; the two buttons; the two
  sliders; the two checkboxes.
\<close>

datatype event =
    Frame rstate real
  | ToggleSimulation
  | Reset
  | SetNuclearCharge real
  | SetAlphaEnergy real
  | ToggleShowPaths
  | ToggleShowHistogram

fun step :: "(nat \<Rightarrow> real) \<Rightarrow> event \<Rightarrow> sim \<Rightarrow> sim" where
  "step rnd (Frame v timestamp) s = animate v rnd timestamp s"
| "step rnd ToggleSimulation s = handleToggleSimulation s"
| "step rnd Reset s = handleReset s"
| "step rnd (SetNuclearCharge z) s = s\<lparr>hooks := (hooks s)\<lparr>nuclearCharge := z\<rparr>\<rparr>"
| "step rnd (SetAlphaEnergy e) s = s\<lparr>hooks := (hooks s)\<lparr>alphaEnergy := e\<rparr>\<rparr>"
| "step rnd ToggleShowPaths s = s\<lparr>hooks := (hooks s)\<lparr>showPaths := \<not> showPaths (hooks s)\<rparr>\<rparr>"
| "step rnd ToggleShowHistogram s =
     s\<lparr>hooks := (hooks s)\<lparr>showHistogram := \<not> showHistogram (hooks s)\<rparr>\<rparr>"

fun run :: "(nat \<Rightarrow> real) \<Rightarrow> event list \<Rightarrow> sim \<Rightarrow> sim" where
  "run rnd [] s = s"
| "run rnd (e # es) s = run rnd es (step rnd e s)"

section \<open>The deflection angle as the specification words it\<close>

text \<open>
  Section 4.2 of the specification: \<^verbatim>\<open>scaleFactor = 5000 / E^2\<close>, then
  \<^verbatim>\<open>tan(theta/2) = (k*Z*2) / (2*E*|b|*scaleFactor)\<close> with \<^verbatim>\<open>k = 1.44\<close>, then
  \<^verbatim>\<open>theta = 2*atan(tan(theta/2))\<close> multiplied by the random factor, converted to
  degrees, and negated when \<^verbatim>\<open>b < 0\<close>.
\<close>

definition specAngle :: "real \<Rightarrow> real \<Rightarrow> real \<Rightarrow> real \<Rightarrow> real" where
  "specAngle Z E b factor =
     (let scaleFactor = 5000 / E\<^sup>2;
          tanHalf = (1.44 * Z * 2) / (2 * E * \<bar>b\<bar> * scaleFactor);
          theta = 2 * arctan tanHalf * factor;
          degrees = theta * 180 / pi
      in if b < 0 then - degrees else degrees)"

section \<open>The life of one particle\<close>

text \<open>
  The successive states of one particle. Each element of the list is one call of
  \<^verbatim>\<open>updateParticlePosition\<close> on it: the state variables the callback holds, the histogram
  and the position in the random sequence at that call.
\<close>

fun lifetime :: "(nat \<Rightarrow> real) \<Rightarrow> (rstate \<times> histogram \<times> nat) list \<Rightarrow> particle \<Rightarrow> particle list" where
  "lifetime rnd [] p = [p]"
| "lifetime rnd ((v, h, d) # calls) p =
     p # lifetime rnd calls (fst (snd (updateParticlePosition v rnd p h d)))"

text \<open>The number of steps of a life at which the flag goes from false to true.\<close>

fun flagTransitions :: "particle list \<Rightarrow> nat" where
  "flagTransitions (p # q # ps) =
     (if \<not> hasReachedNucleus p \<and> hasReachedNucleus q then 1 else 0) + flagTransitions (q # ps)"
| "flagTransitions ps = 0"

text \<open>Every step of a life is such a transition or keeps both velocity components.\<close>

fun velocityKept :: "particle list \<Rightarrow> bool" where
  "velocityKept (p # q # ps) \<longleftrightarrow>
     ((\<not> hasReachedNucleus p \<and> hasReachedNucleus q) \<or> (vx q = vx p \<and> vy q = vy p)) \<and>
     velocityKept (q # ps)"
| "velocityKept ps \<longleftrightarrow> True"

section \<open>Counting deflections\<close>

text \<open>
  The particles of a list whose flag goes from false to true when the list is filtered,
  and those among them whose angle has a magnitude below 180 degrees.
\<close>

fun deflections ::
  "rstate \<Rightarrow> (nat \<Rightarrow> real) \<Rightarrow> particle list \<Rightarrow> histogram \<Rightarrow> nat \<Rightarrow> nat \<times> nat" where
  "deflections v rnd [] h d = (0, 0)"
| "deflections v rnd (p # ps) h d =
     (case updateParticlePosition v rnd p h d of
        (keep, p', h', d') \<Rightarrow>
          (case deflections v rnd ps h' d' of
             (n, m) \<Rightarrow>
               if \<not> hasReachedNucleus p \<and> hasReachedNucleus p'
               then (n + 1, if \<bar>calculateTrajectory v p (rnd d)\<bar> < 180 then m + 1 else m)
               else (n, m)))"

text \<open>
  The two counts since the last reset, along a run: an animation frame adds the
  deflections of the particles it filters, \<^verbatim>\<open>handleReset\<close> starts from zero again.
\<close>

fun tally :: "(nat \<Rightarrow> real) \<Rightarrow> event \<Rightarrow> sim \<Rightarrow> nat \<times> nat \<Rightarrow> nat \<times> nat" where
  "tally rnd (Frame v timestamp) s c =
     (let s2 = spawnParticle v rnd timestamp (startClock timestamp s);
          c2 = deflections v rnd (particlesRef s2) (histogramDataRef s2) (drawn s2)
      in (fst c + fst c2, snd c + snd c2))"
| "tally rnd Reset s c = (0, 0)"
| "tally rnd e s c = c"

fun census :: "(nat \<Rightarrow> real) \<Rightarrow> event list \<Rightarrow> sim \<Rightarrow> nat \<times> nat \<Rightarrow> nat \<times> nat" where
  "census rnd [] s c = c"
| "census rnd (e # es) s c = census rnd es (step rnd e s) (tally rnd e s c)"

section \<open>A run in which a deflection is not recorded\<close>

text \<open>
  The sliders are set to Z = 92 and E = 10 and the paths are switched off. The simulation
  is started, and its second frame creates one particle, with \<^verbatim>\<open>Math.random()\<close> returning
  0.50005 (impact parameter 0.01). It is then paused and resumed again and again, with
  frames 16 ms apart and at most 80 ms after each resumption, so that no other particle
  is created. The callbacks of the first start hold the counter 0, those of the later
  ones the counter 1. After \<open>cxApproach\<close> the particle is at x = 286.5, at a distance of
  13.5 from the centre, and the last frame of \<open>cxRun\<close> deflects it, with
  \<^verbatim>\<open>Math.random()\<close> returning 0.99.
\<close>

definition cxRandom :: "nat \<Rightarrow> real" where
  "cxRandom n = (if n = 0 then 50005 / 100000 else 99 / 100)"

text \<open>The same sequence, with 0.5 in place of 0.99 (random factor 1).\<close>

definition cxRandomHalf :: "nat \<Rightarrow> real" where
  "cxRandomHalf n = (if n = 0 then 50005 / 100000 else 1 / 2)"

definition cxStart :: rstate where
  "cxStart = \<lparr>running = True, counter = 0, nuclearCharge = 92, alphaEnergy = 10,
              showPaths = False, showHistogram = True\<rparr>"

definition cxResume :: rstate where
  "cxResume = cxStart\<lparr>counter := 1\<rparr>"

definition cxSession :: "real \<Rightarrow> event list" where
  "cxSession t =
     [ToggleSimulation, Frame cxResume t, Frame cxResume (t + 16), Frame cxResume (t + 32),
      Frame cxResume (t + 48), Frame cxResume (t + 64), Frame cxResume (t + 80),
      ToggleSimulation]"

definition cxApproach :: "event list" where
  "cxApproach =
     [SetNuclearCharge 92, SetAlphaEnergy 10, ToggleShowPaths, ToggleSimulation,
      Frame cxStart 1000, Frame cxStart 1016, ToggleSimulation]
     @ concat (map (\<lambda>k. cxSession (2000 + 1000 * real k)) [0..<31])
     @ [ToggleSimulation, Frame cxResume 40000, Frame cxResume 40016, Frame cxResume 40032,
        Frame cxResume 40048]"

definition cxRun :: "event list" where
  "cxRun = cxApproach @ [Frame cxResume 40064]"

text \<open>The particle of that run after \<open>k\<close> frames, and the simulation around it.\<close>

definition cxParticle :: "nat \<Rightarrow> particle" where
  "cxParticle k =
     \<lparr>px = 1.5 * real k, py = 200.01, vx = 1.5, vy = 0, impactParameter = 0.01,
      hasReachedNucleus = False, path = [(0, 200.01)]\<rparr>"

definition cxSim :: "bool \<Rightarrow> real option \<Rightarrow> nat \<Rightarrow> sim" where
  "cxSim r st k =
     \<lparr>hooks = cxResume\<lparr>running := r\<rparr>,
      particlesRef = [cxParticle k],
      histogramDataRef = initHistogram,
      startTimeRef = st,
      drawn = 1\<rparr>"

section \<open>A run in which the callback holds an old counter\<close>

text \<open>
  The effect that requests the first animation frame depends on \<^verbatim>\<open>running\<close> only, and
  \<^verbatim>\<open>animate\<close> requests the next frame for itself. The callback of all the frames after a
  start is therefore the one of the render that followed the start, and the \<^verbatim>\<open>counter\<close> it
  reads is the value at the start. \<open>staleStart\<close> is that render for a component started
  right after mounting; the run is the start and its first two frames, with
  \<^verbatim>\<open>Math.random()\<close> returning 0.5.
\<close>

definition staleStart :: rstate where
  "staleStart = \<lparr>running = True, counter = 0, nuclearCharge = 79, alphaEnergy = 5,
                 showPaths = True, showHistogram = True\<rparr>"

definition staleRandom :: "nat \<Rightarrow> real" where
  "staleRandom n = 1 / 2"

definition staleRun :: "event list" where
  "staleRun = [ToggleSimulation, Frame staleStart 1000, Frame staleStart 1016]"

section \<open>Analytic facts\<close>

lemma arctan_le_self: "0 \<le> x \<Longrightarrow> arctan x \<le> (x::real)"
proof -
  assume x: "0 \<le> x"
  have "\<exists>d. DERIV (\<lambda>u. u - arctan u) u :> d \<and> 0 \<le> d" for u :: real
  proof -
    have "DERIV (\<lambda>u. u - arctan u) u :> 1 - inverse (1 + u\<^sup>2)"
      by (auto intro!: derivative_eq_intros)
    moreover have "0 \<le> 1 - inverse (1 + u\<^sup>2)"
      by (simp add: inverse_le_1_iff)
    ultimately show ?thesis by blast
  qed
  from DERIV_nonneg_imp_nondecreasing[OF x, of "(\<lambda>u. u - arctan u)"] this show ?thesis by simp
qed

lemma one_plus_square_nonzero: "1 + (u::real)\<^sup>2 \<noteq> 0"
  using zero_le_power2[of u] by linarith

lemma arctan_ge_cubic: "0 \<le> x \<Longrightarrow> x - x^3 / 3 \<le> arctan (x::real)"
proof -
  assume x: "0 \<le> x"
  have "\<exists>d. DERIV (\<lambda>u. arctan u - u + u^3 / 3) u :> d \<and> 0 \<le> d" for u :: real
  proof -
    have "inverse (1 + u\<^sup>2) - 1 + u\<^sup>2 = u^4 / (1 + u\<^sup>2)"
      using one_plus_square_nonzero[of u]
      by (simp add: field_simps power2_eq_square power4_eq_xxxx)
    moreover have "DERIV (\<lambda>u. arctan u - u + u^3 / 3) u :> inverse (1 + u\<^sup>2) - 1 + u\<^sup>2"
      by (auto intro!: derivative_eq_intros)
    ultimately have "DERIV (\<lambda>u. arctan u - u + u^3 / 3) u :> u^4 / (1 + u\<^sup>2)"
      by (simp only:)
    moreover have "0 \<le> u^4 / (1 + u\<^sup>2)"
      by (intro divide_nonneg_nonneg add_nonneg_nonneg) simp_all
    ultimately show ?thesis by blast
  qed
  then have "(\<lambda>u. arctan u - u + u^3 / 3) 0 \<le> (\<lambda>u. arctan u - u + u^3 / 3) x"
    by (rule DERIV_nonneg_imp_nondecreasing[OF x])
  then show ?thesis by simp
qed

lemma arctan_le_quintic: "0 \<le> x \<Longrightarrow> arctan (x::real) \<le> x - x^3 / 3 + x^5 / 5"
proof -
  assume x: "0 \<le> x"
  have "\<exists>d. DERIV (\<lambda>u. u - u^3 / 3 + u^5 / 5 - arctan u) u :> d \<and> 0 \<le> d" for u :: real
  proof -
    have "(1 - u\<^sup>2 + u^4) * (1 + u\<^sup>2) = 1 + u^6"
      by (simp add: algebra_simps power2_eq_square power4_eq_xxxx eval_nat_numeral)
    then have "1 - u\<^sup>2 + u^4 - inverse (1 + u\<^sup>2) = u^6 / (1 + u\<^sup>2)"
      using one_plus_square_nonzero[of u]
      by (simp add: field_simps)
    moreover have "DERIV (\<lambda>u. u - u^3 / 3 + u^5 / 5 - arctan u) u :> 1 - u\<^sup>2 + u^4 - inverse (1 + u\<^sup>2)"
      by (auto intro!: derivative_eq_intros)
    ultimately have "DERIV (\<lambda>u. u - u^3 / 3 + u^5 / 5 - arctan u) u :> u^6 / (1 + u\<^sup>2)"
      by (simp only:)
    moreover have "0 \<le> u^6 / (1 + u\<^sup>2)"
      by (intro divide_nonneg_nonneg add_nonneg_nonneg) simp_all
    ultimately show ?thesis by blast
  qed
  then have "(\<lambda>u. u - u^3 / 3 + u^5 / 5 - arctan u) 0 \<le> (\<lambda>u. u - u^3 / 3 + u^5 / 5 - arctan u) x"
    by (rule DERIV_nonneg_imp_nondecreasing[OF x])
  then show ?thesis by simp
qed

lemma pi_lower: "314 / 100 < pi"
proof -
  have "(1/5::real) - (1/5)^3 / 3 \<le> arctan (1/5)" by (rule arctan_ge_cubic) simp
  then have a: "74 / 375 \<le> arctan (1/5::real)" by (simp add: power_divide)
  have b: "arctan (1/239::real) \<le> 1/239" by (rule arctan_le_self) simp
  have "pi = 16 * arctan (1 / 5) - 4 * arctan (1/239)" using machin by simp
  with a b show ?thesis by linarith
qed

lemma pi_upper: "pi < 3142 / 1000"
proof -
  have "arctan (1/5::real) \<le> 1/5 - (1/5)^3 / 3 + (1/5)^5 / 5" by (rule arctan_le_quintic) simp
  then have a: "arctan (1/5::real) \<le> 9253 / 46875" by (simp add: power_divide)
  have "(1/239::real) - (1/239)^3 / 3 \<le> arctan (1/239)" by (rule arctan_ge_cubic) simp
  then have b: "171362 / 40955757 \<le> arctan (1/239::real)" by (simp add: power_divide)
  have "pi = 16 * arctan (1 / 5) - 4 * arctan (1/239)" using machin by simp
  with a b show ?thesis by linarith
qed

lemma tanHalfTheta_closed:
  "energy \<noteq> 0 \<Longrightarrow> tanHalfTheta Z energy b = (144 * Z * energy) / (500000 * \<bar>b\<bar>)"
  by (simp add: tanHalfTheta_def Let_def field_simps)

lemma tanHalfTheta_pos:
  "0 < Z \<Longrightarrow> 0 < energy \<Longrightarrow> b \<noteq> 0 \<Longrightarrow> 0 < tanHalfTheta Z energy b"
  by (simp add: tanHalfTheta_closed)

lemma tanHalfTheta_energy_mono:
  assumes "0 < Z" "0 < E1" "E1 < E2" "b \<noteq> 0"
  shows "tanHalfTheta Z E1 b < tanHalfTheta Z E2 b"
proof -
  have "144 * Z * E1 < 144 * Z * E2" using assms by simp
  moreover have "0 < 500000 * \<bar>b\<bar>" using assms by simp
  ultimately have "(144 * Z * E1) / (500000 * \<bar>b\<bar>) < (144 * Z * E2) / (500000 * \<bar>b\<bar>)"
    by (rule divide_strict_right_mono)
  then show ?thesis using assms by (simp add: tanHalfTheta_closed)
qed

lemma abs_calculateTrajectory:
  assumes "impactParameter p \<noteq> 0" "0 \<le> u"
    "0 \<le> tanHalfTheta (nuclearCharge v) (alphaEnergy v) (impactParameter p)"
  shows "\<bar>calculateTrajectory v p u\<bar> =
         2 * arctan (tanHalfTheta (nuclearCharge v) (alphaEnergy v) (impactParameter p))
           * (0.9 + u * 0.2) * (180 / pi)"
proof -
  define a where "a = 2 * arctan (tanHalfTheta (nuclearCharge v) (alphaEnergy v) (impactParameter p))
           * (0.9 + u * 0.2) * (180 / pi)"
  have "0 \<le> arctan (tanHalfTheta (nuclearCharge v) (alphaEnergy v) (impactParameter p))"
    using assms(3) by simp
  moreover have "0 \<le> 0.9 + u * 0.2" using assms(2) by simp
  moreover have "0 \<le> 180 / pi" by simp
  ultimately have "0 \<le> a" unfolding a_def by (intro mult_nonneg_nonneg) simp_all
  moreover have "calculateTrajectory v p u = (if impactParameter p < 0 then - a else a)"
    using assms(1) by (simp add: calculateTrajectory_def Let_def a_def)
  ultimately have "\<bar>calculateTrajectory v p u\<bar> = a" by simp
  then show ?thesis by (simp only: a_def)
qed

lemma calculateTrajectory_energy_mono:
  assumes b: "impactParameter p \<noteq> 0" and Z: "0 < nuclearCharge v"
    and E: "0 < alphaEnergy v" "alphaEnergy v < E'" and u: "0 \<le> u"
  shows "\<bar>calculateTrajectory v p u\<bar> < \<bar>calculateTrajectory (v\<lparr>alphaEnergy := E'\<rparr>) p u\<bar>"
proof -
  define t where "t = tanHalfTheta (nuclearCharge v) (alphaEnergy v) (impactParameter p)"
  define t' where "t' = tanHalfTheta (nuclearCharge v) E' (impactParameter p)"
  define c where "c = (0.9 + u * 0.2) * (180 / pi)"
  have lt: "t < t'" unfolding t_def t'_def using tanHalfTheta_energy_mono[OF Z E b] .
  have pos: "0 < t" unfolding t_def using tanHalfTheta_pos[OF Z E(1) b] .
  have c: "0 < c" unfolding c_def using u by (intro mult_pos_pos add_pos_nonneg) simp_all
  have "arctan t < arctan t'" using lt by (simp add: arctan_less_iff)
  then have "2 * arctan t * c < 2 * arctan t' * c" using c by simp
  moreover have "\<bar>calculateTrajectory v p u\<bar> = 2 * arctan t * c"
    using abs_calculateTrajectory[OF b u] pos by (simp add: t_def c_def mult.assoc)
  moreover have "\<bar>calculateTrajectory (v\<lparr>alphaEnergy := E'\<rparr>) p u\<bar> = 2 * arctan t' * c"
    using abs_calculateTrajectory[of p u "v\<lparr>alphaEnergy := E'\<rparr>"] b u pos lt
    by (simp add: t'_def c_def mult.assoc)
  ultimately show ?thesis by (simp only:)
qed

section \<open>Properties of the deflection angle\<close>

text \<open>
  C1. The claim: for a fixed nonzero impact parameter, a fixed nuclear charge and a fixed
  random factor, a larger \<^verbatim>\<open>alphaEnergy\<close> gives a strictly smaller magnitude of the angle
  that \<^verbatim>\<open>calculateTrajectory\<close> returns. The code does the opposite (lemma
  \<open>calculateTrajectory_energy_mono\<close>): \<^verbatim>\<open>scaleFactor\<close> is \<^verbatim>\<open>5000 / E^2\<close>, so that
  \<^verbatim>\<open>tanHalfTheta\<close> is proportional to the energy. At Z = 79 and impact parameter 40,
  with the random factor 1, the angle at 5 MeV is smaller in magnitude than at 10 MeV.
\<close>

theorem calculateTrajectory_energy_failing_input:
  "\<bar>calculateTrajectory \<lparr>running = True, counter = 0, nuclearCharge = 79, alphaEnergy = 5,
        showPaths = True, showHistogram = True\<rparr> (createParticle (7/10)) (1/2)\<bar>
   < \<bar>calculateTrajectory \<lparr>running = True, counter = 0, nuclearCharge = 79, alphaEnergy = 10,
        showPaths = True, showHistogram = True\<rparr> (createParticle (7/10)) (1/2)\<bar>"
  using calculateTrajectory_energy_mono[of "createParticle (7/10)"
      "\<lparr>running = True, counter = 0, nuclearCharge = 79, alphaEnergy = 5,
        showPaths = True, showHistogram = True\<rparr>" 10 "1/2"]
  by (simp add: createParticle_def HEIGHT_def)

text \<open>
  C2. For a particle with a nonzero impact parameter, \<^verbatim>\<open>calculateTrajectory\<close> returns the
  angle of the specification's formula, with the random factor \<open>0.9 + 0.2 u\<close>, which lies
  between 0.9 and 1.1 for a value \<open>u\<close> of \<^verbatim>\<open>Math.random()\<close>.
\<close>

theorem calculateTrajectory_formula:
  assumes "impactParameter p \<noteq> 0" "0 \<le> u" "u < 1"
  shows "calculateTrajectory v p u =
           specAngle (nuclearCharge v) (alphaEnergy v) (impactParameter p) (0.9 + u * 0.2)
         \<and> 0.9 \<le> 0.9 + u * 0.2 \<and> 0.9 + u * 0.2 \<le> 1.1"
  using assms
  by (simp add: calculateTrajectory_def specAngle_def tanHalfTheta_def Let_def power2_eq_square)

theorem calculateTrajectory_formula_witness:
  "impactParameter (createParticle (7/10)) \<noteq> 0 \<and> (0::real) \<le> 1/2 \<and> (1/2::real) < 1 \<and>
   calculateTrajectory \<lparr>running = True, counter = 0, nuclearCharge = 79, alphaEnergy = 5,
        showPaths = True, showHistogram = True\<rparr> (createParticle (7/10)) (1/2)
     = specAngle 79 5 40 1"
  using calculateTrajectory_formula[of "createParticle (7/10)" "1/2"
      "\<lparr>running = True, counter = 0, nuclearCharge = 79, alphaEnergy = 5,
        showPaths = True, showHistogram = True\<rparr>"]
  by (simp add: createParticle_def HEIGHT_def)

text \<open>
  C4. With impact parameter 0 the angle returned is exactly 0, whatever the nuclear charge
  and the energy are. The function is total: the division by the impact parameter is
  not evaluated on this branch, and \<^verbatim>\<open>scaleFactor\<close> is not used.
\<close>

theorem calculateTrajectory_zero_impact:
  "calculateTrajectory v (p\<lparr>impactParameter := 0\<rparr>) u = 0"
  by (simp add: calculateTrajectory_def)

lemma tanHalfTheta_scenario: "tanHalfTheta 79 5 40 = 227.52 / 80000"
  by (simp add: tanHalfTheta_def Let_def)

lemma arctan_scenario_bounds:
  "2843 / 1000000 < arctan (tanHalfTheta 79 5 40) \<and> arctan (tanHalfTheta 79 5 40) \<le> 2844 / 1000000"
proof -
  have t: "tanHalfTheta 79 5 40 = 2844 / 1000000" by (simp add: tanHalfTheta_scenario)
  have "arctan (2844 / 1000000 :: real) \<le> 2844 / 1000000"
    by (rule arctan_le_self) simp
  moreover have "(2844 / 1000000 :: real) - (2844 / 1000000)^3 / 3 \<le> arctan (2844 / 1000000)"
    by (rule arctan_ge_cubic) simp
  then have "2843 / 1000000 < arctan (2844 / 1000000 :: real)"
    by (simp add: power3_eq_cube)
  ultimately show ?thesis unfolding t by blast
qed

lemma binKey_small: "\<bar>a\<bar> < 10 \<Longrightarrow> binKey a = 0"
proof -
  assume a: "\<bar>a\<bar> < 10"
  have "\<lfloor>\<bar>a\<bar> / 10\<rfloor> = 0"
    by (rule floor_unique) (use a in simp_all)
  then show ?thesis by (simp add: binKey_def)
qed

lemma scenario_angle:
  assumes "nuclearCharge v = 79" "alphaEnergy v = 5" "impactParameter p = 40"
  shows "calculateTrajectory v p u = 360 * arctan (tanHalfTheta 79 5 40) * (0.9 + u * 0.2) / pi"
  using assms by (simp add: calculateTrajectory_def Let_def)

text \<open>
  C9. The scenario Z = 79, E = 5, impact parameter 40. The claim takes
  \<^verbatim>\<open>tan(theta/2)\<close> to be 227.52/40000, about 0.00569, and the angle before the random factor
  to be about 0.65 degrees. The denominator \<^verbatim>\<open>2*5*40*(5000/25)\<close> is 80000, not 40000.
\<close>

theorem tanHalfTheta_scenario_counterexample:
  "tanHalfTheta 79 5 40 \<noteq> 227.52 / 40000"
  by (simp add: tanHalfTheta_def Let_def)

text \<open>
  C9, amended. In that scenario \<^verbatim>\<open>tanHalfTheta\<close> is 227.52/80000 (0.002844), the angle with
  the random factor 1 lies between 0.325 and 0.327 degrees, and the bin key of the angle
  is 0 for every random factor between 0.9 and 1.1.
\<close>

theorem scenario_gold_foil:
  assumes "nuclearCharge v = 79" "alphaEnergy v = 5" "impactParameter p = 40" "0 \<le> u" "u \<le> 1"
  shows "tanHalfTheta (nuclearCharge v) (alphaEnergy v) (impactParameter p) = 227.52 / 80000 \<and>
         0.325 < calculateTrajectory v p (1/2) \<and> calculateTrajectory v p (1/2) < 0.327 \<and>
         binKey (calculateTrajectory v p u) = 0"
proof -
  define T where "T = arctan (tanHalfTheta 79 5 40)"
  have T: "2843 / 1000000 < T" "T \<le> 2844 / 1000000"
    using arctan_scenario_bounds by (simp_all add: T_def)
  have half: "calculateTrajectory v p (1/2) = 360 * T / pi"
    using scenario_angle[OF assms(1-3), of "1/2"] by (simp add: T_def)
  have "0.325 * pi < 360 * T" using T(1) pi_upper by simp
  then have lo: "0.325 < calculateTrajectory v p (1/2)"
    by (simp add: half pos_less_divide_eq)
  have "360 * T < 0.327 * pi" using T(2) pi_lower by simp
  then have hi: "calculateTrajectory v p (1/2) < 0.327"
    by (simp add: half pos_divide_less_eq)
  define f where "f = 0.9 + u * 0.2"
  have f: "0 < f" "f \<le> 1.1" using assms(4,5) by (simp_all add: f_def)
  have ang: "calculateTrajectory v p u = 360 * T * f / pi"
    using scenario_angle[OF assms(1-3), of u] by (simp add: T_def f_def)
  have Tpos: "0 < T" using T(1) by simp
  have "0 \<le> 360 * T * f / pi" using Tpos f(1) by simp
  moreover have "360 * T * f < 10 * pi"
  proof -
    have "T * f \<le> (2844 / 1000000) * 1.1"
      using T(2) f Tpos by (intro mult_mono) simp_all
    then show ?thesis using pi_lower by simp
  qed
  then have "360 * T * f / pi < 10" by (simp add: pos_divide_less_eq)
  ultimately have "\<bar>calculateTrajectory v p u\<bar> < 10"
    unfolding ang by linarith
  then have "binKey (calculateTrajectory v p u) = 0"
    by (rule binKey_small)
  with lo hi show ?thesis using assms(1-3) by (simp add: tanHalfTheta_scenario)
qed

theorem scenario_gold_foil_witness:
  "tanHalfTheta 79 5 40 = 227.52 / 80000 \<and>
   0.325 < calculateTrajectory \<lparr>running = True, counter = 0, nuclearCharge = 79, alphaEnergy = 5,
        showPaths = True, showHistogram = True\<rparr> (createParticle (7/10)) (1/2) \<and>
   binKey (calculateTrajectory \<lparr>running = True, counter = 0, nuclearCharge = 79, alphaEnergy = 5,
        showPaths = True, showHistogram = True\<rparr> (createParticle (7/10)) 1) = 0"
  using scenario_gold_foil[of "\<lparr>running = True, counter = 0, nuclearCharge = 79, alphaEnergy = 5,
        showPaths = True, showHistogram = True\<rparr>" "createParticle (7/10)" 1]
  by (simp add: createParticle_def HEIGHT_def)

section \<open>Properties of the histogram\<close>

lemma binKeys_explicit:
  "binKeys = [0, 10, 20, 30, 40, 50, 60, 70, 80, 90, 100, 110, 120, 130, 140, 150, 160, 170]"
  by (simp add: binKeys_def upt_rec)

lemma set_binKeys: "set binKeys = {k. 0 \<le> k \<and> k < 180 \<and> k mod 10 = 0}"
proof (rule set_eqI)
  fix k :: int
  show "k \<in> set binKeys \<longleftrightarrow> k \<in> {k. 0 \<le> k \<and> k < 180 \<and> k mod 10 = 0}"
  proof
    assume "k \<in> set binKeys"
    then obtain n where "n < 18" "k = 10 * int n" by (auto simp: binKeys_def)
    then show "k \<in> {k. 0 \<le> k \<and> k < 180 \<and> k mod 10 = 0}" by simp
  next
    assume "k \<in> {k. 0 \<le> k \<and> k < 180 \<and> k mod 10 = 0}"
    then have k: "0 \<le> k" "k < 180" "k mod 10 = 0" by simp_all
    have d: "0 \<le> k div 10" "k div 10 < 18" using k(1,2) by simp_all
    have "k = 10 * (k div 10)" using k(3) by presburger
    then have "k = 10 * int (nat (k div 10))" using d(1) by simp
    moreover have "nat (k div 10) < 18" using d by simp
    ultimately have "k \<in> (\<lambda>n. 10 * int n) ` {0..<18}" by (intro image_eqI[where x = "nat (k div 10)"]) simp_all
    then show "k \<in> set binKeys" by (simp add: binKeys_def)
  qed
qed

lemma initBins_apply:
  "initBins i h k = (if i \<le> k \<and> k < 180 \<and> (k - i) mod 10 = 0 then Some 0 else h k)"
proof (induction i h rule: initBins.induct)
  case (1 i h)
  show ?case
  proof (cases "i < 180")
    case True
    have "initBins i h k = initBins (i + 10) (h(i \<mapsto> 0)) k"
      using True by (subst initBins.simps) simp
    also have "\<dots> = (if i + 10 \<le> k \<and> k < 180 \<and> (k - (i + 10)) mod 10 = 0 then Some 0
                      else (h(i \<mapsto> 0)) k)"
      using "1.IH"[OF True] .
    also have "\<dots> = (if i \<le> k \<and> k < 180 \<and> (k - i) mod 10 = 0 then Some 0 else h k)"
      using True by (auto; presburger)
    finally show ?thesis .
  next
    case False
    then show ?thesis by (subst initBins.simps) auto
  qed
qed

lemma initHistogram_apply:
  "initHistogram k = (if k \<in> set binKeys then Some 0 else None)"
  by (simp add: initHistogram_def initBins_apply set_binKeys)

lemma dom_initHistogram: "dom initHistogram = set binKeys"
  by (auto simp: dom_def initHistogram_apply)

lemma dom_recordAngle: "dom (recordAngle angle h) = dom h"
  by (auto simp: recordAngle_def split: option.splits)

lemma binKey_in_binKeys: "binKey angle \<in> set binKeys \<longleftrightarrow> \<bar>angle\<bar> < 180"
proof -
  have "0 \<le> \<lfloor>\<bar>angle\<bar> / 10\<rfloor>" by simp
  moreover have "\<lfloor>\<bar>angle\<bar> / 10\<rfloor> < 18 \<longleftrightarrow> \<bar>angle\<bar> < 180"
    by (simp add: floor_less_iff)
  ultimately show ?thesis by (auto simp: set_binKeys binKey_def)
qed



text \<open>
  C8. After \<^verbatim>\<open>handleReset\<close> the simulation is stopped, the particle store is empty, the
  histogram has the eighteen bins and each of them is zero, the counter of emitted
  particles is 0 and the time origin is cleared.
\<close>

theorem handleReset_state:
  "running (hooks (handleReset s)) = False \<and>
   particlesRef (handleReset s) = [] \<and>
   length binKeys = 18 \<and>
   dom (histogramDataRef (handleReset s)) = set binKeys \<and>
   map (histogramDataRef (handleReset s)) binKeys = replicate 18 (Some 0) \<and>
   counter (hooks (handleReset s)) = 0 \<and>
   startTimeRef (handleReset s) = None"
proof -
  have "map initHistogram binKeys = map (\<lambda>k. Some 0) binKeys"
    by (rule map_cong) (simp_all add: initHistogram_apply)
  also have "\<dots> = replicate (length binKeys) (Some 0)" by (simp add: map_replicate_const)
  finally have "map initHistogram binKeys = replicate 18 (Some 0)" by (simp add: binKeys_def)
  then show ?thesis by (simp add: handleReset_def dom_initHistogram) (simp add: binKeys_def)
qed

section \<open>Particles, frames and runs\<close>

lemma deflect_parts:
  "hasReachedNucleus (fst (deflect v rnd p h d))"
  "fst (snd (deflect v rnd p h d)) = recordAngle (calculateTrajectory v p (rnd d)) h"
  "snd (snd (deflect v rnd p h d)) = (if impactParameter p \<noteq> 0 then d + 3 else d + 2)"
  by (simp_all add: deflect_def Let_def)

lemma updateParticlePosition_parts:
  assumes "updateParticlePosition v rnd p h d = (keep, p', h', d')"
  shows "h' = (if reachesNucleus p then fst (snd (deflect v rnd p h d)) else h)"
    and "d' = (if reachesNucleus p then snd (snd (deflect v rnd p h d)) else d)"
    and "hasReachedNucleus p' =
           hasReachedNucleus (if reachesNucleus p then fst (deflect v rnd p h d) else p)"
    and "vx p' = vx (if reachesNucleus p then fst (deflect v rnd p h d) else p)"
    and "vy p' = vy (if reachesNucleus p then fst (deflect v rnd p h d) else p)"
proof -
  obtain p1 h1 d1 where
    r: "(if reachesNucleus p then deflect v rnd p h d else (p, h, d)) = (p1, h1, d1)"
    by (metis prod_cases3)
  have p1: "p1 = (if reachesNucleus p then fst (deflect v rnd p h d) else p)"
    and h1: "h1 = (if reachesNucleus p then fst (snd (deflect v rnd p h d)) else h)"
    and d1: "d1 = (if reachesNucleus p then snd (snd (deflect v rnd p h d)) else d)"
    using r by (auto split: if_splits)
  have "h' = h1" "d' = d1" "hasReachedNucleus p' = hasReachedNucleus p1"
    "vx p' = vx p1" "vy p' = vy p1"
    using assms unfolding updateParticlePosition_def r by (auto simp: Let_def split: if_splits)
  then show "h' = (if reachesNucleus p then fst (snd (deflect v rnd p h d)) else h)"
    and "d' = (if reachesNucleus p then snd (snd (deflect v rnd p h d)) else d)"
    and "hasReachedNucleus p' =
           hasReachedNucleus (if reachesNucleus p then fst (deflect v rnd p h d) else p)"
    and "vx p' = vx (if reachesNucleus p then fst (deflect v rnd p h d) else p)"
    and "vy p' = vy (if reachesNucleus p then fst (deflect v rnd p h d) else p)"
    by (simp_all only: p1 h1 d1)
qed

lemma updateParticlePosition_histogram:
  assumes "updateParticlePosition v rnd p h d = (keep, p', h', d')"
  shows "h' = (if reachesNucleus p then recordAngle (calculateTrajectory v p (rnd d)) h else h)"
  using updateParticlePosition_parts(1)[OF assms] by (simp add: deflect_parts)

lemma updateParticlePosition_drawn:
  assumes "updateParticlePosition v rnd p h d = (keep, p', h', d')"
  shows "d' = (if reachesNucleus p then (if impactParameter p \<noteq> 0 then d + 3 else d + 2) else d)"
  using updateParticlePosition_parts(2)[OF assms] by (simp add: deflect_parts)

lemma updateParticlePosition_flag:
  assumes "updateParticlePosition v rnd p h d = (keep, p', h', d')"
  shows "hasReachedNucleus p' \<longleftrightarrow> hasReachedNucleus p \<or> reachesNucleus p"
  using updateParticlePosition_parts(3)[OF assms] by (simp add: deflect_parts)

lemma updateParticlePosition_velocity:
  assumes "updateParticlePosition v rnd p h d = (keep, p', h', d')" "\<not> reachesNucleus p"
  shows "vx p' = vx p \<and> vy p' = vy p"
  using updateParticlePosition_parts(4,5)[OF assms(1)] assms(2) by simp

lemma updateParticlePosition_dom:
  "updateParticlePosition v rnd p h d = (keep, p', h', d') \<Longrightarrow> dom h' = dom h"
  using updateParticlePosition_histogram[of v rnd p h d keep p' h' d']
  by (simp add: dom_recordAngle)

lemma filterParticles_dom:
  "filterParticles v rnd ps h d = (qs, h', d') \<Longrightarrow> dom h' = dom h"
proof (induction ps arbitrary: h d qs h' d')
  case Nil
  then show ?case by simp
next
  case (Cons p ps)
  obtain keep p1 h1 d1 where u: "updateParticlePosition v rnd p h d = (keep, p1, h1, d1)"
    by (metis prod_cases4)
  obtain qs2 h2 d2 where f: "filterParticles v rnd ps h1 d1 = (qs2, h2, d2)"
    by (metis prod_cases3)
  from Cons.prems u f have "h' = h2" by simp
  moreover have "dom h2 = dom h1" using Cons.IH[OF f] .
  moreover have "dom h1 = dom h" using updateParticlePosition_dom[OF u] .
  ultimately show ?case by simp
qed

lemma animate_dom: "dom (histogramDataRef (animate v rnd t s)) = dom (histogramDataRef s)"
proof -
  define s2 where "s2 = spawnParticle v rnd t (startClock t s)"
  have h2: "histogramDataRef s2 = histogramDataRef s"
    by (simp add: s2_def spawnParticle_def startClock_def split: option.splits)
  obtain qs h' d' where f: "filterParticles v rnd (particlesRef s2) (histogramDataRef s2) (drawn s2) = (qs, h', d')"
    by (metis prod_cases3)
  have "histogramDataRef (animate v rnd t s) = h'"
    using f by (simp add: animate_def advanceParticles_def s2_def)
  then show ?thesis using filterParticles_dom[OF f] h2 by simp
qed

lemma step_dom:
  "dom (histogramDataRef s) = set binKeys \<Longrightarrow> dom (histogramDataRef (step rnd e s)) = set binKeys"
  by (cases e) (simp_all add: animate_dom handleReset_def handleToggleSimulation_def Let_def dom_initHistogram)

lemma run_dom:
  "dom (histogramDataRef s) = set binKeys \<Longrightarrow> dom (histogramDataRef (run rnd es s)) = set binKeys"
  by (induction es arbitrary: s) (simp_all add: step_dom)

text \<open>
  C10. In every state that a run of events reaches from the mounted component, the keys
  of the histogram are exactly 0, 10, ..., 170: the mount effect and \<^verbatim>\<open>handleReset\<close> build
  these keys (\<open>dom_initHistogram\<close>) and recording an angle adds none (\<open>dom_recordAngle\<close>).
\<close>

theorem histogram_keys:
  "dom (histogramDataRef (run rnd es mounted))
     = {0, 10, 20, 30, 40, 50, 60, 70, 80, 90, 100, 110, 120, 130, 140, 150, 160, 170}"
proof -
  have "dom (histogramDataRef mounted) = set binKeys" by (simp add: mounted_def dom_initHistogram)
  then have "dom (histogramDataRef (run rnd es mounted)) = set binKeys" by (rule run_dom)
  then show ?thesis by (simp add: binKeys_explicit)
qed

text \<open>
  The spawning step of a frame reads \<^verbatim>\<open>counter\<close> and \<^verbatim>\<open>running\<close> in the values \<open>v\<close> of the
  callback: it pushes exactly one new particle, and adds one to the current counter, when
  the elapsed time exceeds 100 times \<open>counter v\<close>, the store holds fewer than 100 particles
  and \<open>running v\<close> is true; otherwise the store and the counter are unchanged. The rest
  of the frame does not change the counter.
\<close>

lemma spawnParticle_callback:
  "particlesRef (spawnParticle v rnd t s) =
     (if elapsed t s > real (counter v) * 100 \<and> length (particlesRef s) < 100 \<and> running v
      then particlesRef s @ [createParticle (rnd (drawn s))] else particlesRef s) \<and>
   counter (hooks (spawnParticle v rnd t s)) =
     (if elapsed t s > real (counter v) * 100 \<and> length (particlesRef s) < 100 \<and> running v
      then counter (hooks s) + 1 else counter (hooks s)) \<and>
   counter (hooks (animate v rnd t s)) =
     (if elapsed t (startClock t s) > real (counter v) * 100 \<and> length (particlesRef s) < 100 \<and> running v
      then counter (hooks s) + 1 else counter (hooks s))"
proof -
  have a: "counter (hooks (advanceParticles v rnd s')) = counter (hooks s')" for s'
    by (simp add: advanceParticles_def split: prod.splits)
  have b: "particlesRef (startClock t s) = particlesRef s" "hooks (startClock t s) = hooks s"
    by (simp_all add: startClock_def split: option.splits)
  show ?thesis
    by (simp add: animate_def a b spawnParticle_def spawnCondition_def MAX_PARTICLES_def EMISSION_INTERVAL_def)
qed

section \<open>One deflection per particle\<close>

lemma lifetime_head: "\<exists>ps. lifetime rnd calls p = p # ps"
  by (cases calls) auto

lemma lifetime_bounds:
  "flagTransitions (lifetime rnd calls p) \<le> (if hasReachedNucleus p then 0 else 1) \<and>
   velocityKept (lifetime rnd calls p)"
proof (induction calls arbitrary: p)
  case Nil
  show ?case by simp
next
  case (Cons c calls)
  obtain v h d where c: "c = (v, h, d)" by (cases c) auto
  obtain keep p' h' d' where u: "updateParticlePosition v rnd p h d = (keep, p', h', d')"
    by (metis prod_cases4)
  obtain ps where l: "lifetime rnd calls p' = p' # ps"
    using lifetime_head by blast
  have L: "lifetime rnd (c # calls) p = p # p' # ps" by (simp add: c u l)
  have flag: "hasReachedNucleus p' \<longleftrightarrow> hasReachedNucleus p \<or> reachesNucleus p"
    using updateParticlePosition_flag[OF u] .
  have ih: "flagTransitions (p' # ps) \<le> (if hasReachedNucleus p' then 0 else 1)"
    "velocityKept (p' # ps)"
    using Cons.IH[of p'] by (simp_all add: l)
  have vel: "(\<not> hasReachedNucleus p \<and> hasReachedNucleus p') \<or> (vx p' = vx p \<and> vy p' = vy p)"
  proof (cases "reachesNucleus p")
    case True
    then show ?thesis using flag by (simp add: reachesNucleus_def)
  next
    case False
    then show ?thesis using updateParticlePosition_velocity[OF u] by simp
  qed
  show ?case using ih vel flag unfolding L by auto
qed

text \<open>
  C6. Over the successive calls of \<^verbatim>\<open>updateParticlePosition\<close> on one particle, whatever
  state variables, histogram and random values the calls see, \<^verbatim>\<open>hasReachedNucleus\<close> goes
  from false to true at most once, and every call that is not that transition leaves
  \<^verbatim>\<open>vx\<close> and \<^verbatim>\<open>vy\<close> unchanged.
\<close>

theorem deflected_once:
  "flagTransitions (lifetime rnd calls p) \<le> 1 \<and> velocityKept (lifetime rnd calls p)"
proof -
  have "flagTransitions (lifetime rnd calls p) \<le> (if hasReachedNucleus p then 0 else 1)"
    using lifetime_bounds by blast
  then have "flagTransitions (lifetime rnd calls p) \<le> 1" by (simp split: if_splits)
  then show ?thesis using lifetime_bounds by blast
qed

section \<open>The histogram and the number of deflections\<close>

lemma sum_list_indicator:
  "distinct xs \<Longrightarrow> sum_list (map (\<lambda>j. if j = k then 1 else 0) xs) = (if k \<in> set xs then 1 else (0::nat))"
  by (induction xs) auto

lemma distinct_binKeys: "distinct binKeys"
  by (simp add: binKeys_explicit)

lemma histogramTotal_update:
  assumes "k \<in> set binKeys" "h k = Some c"
  shows "histogramTotal (h(k \<mapsto> c + 1)) = histogramTotal h + 1"
proof -
  have "binCount (h(k \<mapsto> c + 1)) = (\<lambda>j. binCount h j + (if j = k then 1 else 0))"
    using assms(2) by (auto simp: binCount_def fun_eq_iff)
  then have "histogramTotal (h(k \<mapsto> c + 1)) =
      sum_list (map (binCount h) binKeys) + sum_list (map (\<lambda>j. if j = k then 1 else 0) binKeys)"
    by (simp add: histogramTotal_def sum_list_addf)
  then show ?thesis
    using assms(1) by (simp add: sum_list_indicator[OF distinct_binKeys] histogramTotal_def)
qed

lemma histogramTotal_recordAngle:
  assumes "dom h = set binKeys"
  shows "histogramTotal (recordAngle angle h) = histogramTotal h + (if \<bar>angle\<bar> < 180 then 1 else 0)"
proof (cases "\<bar>angle\<bar> < 180")
  case True
  then have k: "binKey angle \<in> set binKeys" by (simp add: binKey_in_binKeys)
  then obtain c where c: "h (binKey angle) = Some c" using assms by blast
  then have "recordAngle angle h = h(binKey angle \<mapsto> c + 1)" by (simp add: recordAngle_def)
  then show ?thesis using histogramTotal_update[of "binKey angle" h c] k c True by simp
next
  case False
  then have "binKey angle \<notin> dom h" using assms by (simp add: binKey_in_binKeys)
  then have "recordAngle angle h = h" by (auto simp: recordAngle_def split: option.splits)
  then show ?thesis using False by simp
qed

lemma recordAngle_out_of_range:
  assumes "dom h = set binKeys" "\<not> \<bar>angle\<bar> < 180"
  shows "recordAngle angle h = h"
proof -
  have "binKey angle \<notin> dom h" using assms by (simp add: binKey_in_binKeys)
  then show ?thesis by (auto simp: recordAngle_def split: option.splits)
qed

lemma flag_flip:
  assumes "updateParticlePosition v rnd p h d = (keep, p', h', d')"
  shows "\<not> hasReachedNucleus p \<and> hasReachedNucleus p' \<longleftrightarrow> reachesNucleus p"
  using updateParticlePosition_flag[OF assms] by (auto simp: reachesNucleus_def)

lemma filterParticles_total:
  assumes "dom h = set binKeys" "filterParticles v rnd ps h d = (qs, h', d')"
    "deflections v rnd ps h d = (n, m)"
  shows "histogramTotal h' = histogramTotal h + m \<and> m \<le> n"
  using assms
proof (induction ps arbitrary: h d qs h' d' n m)
  case Nil
  then show ?case by simp
next
  case (Cons p ps)
  obtain keep p1 h1 d1 where u: "updateParticlePosition v rnd p h d = (keep, p1, h1, d1)"
    by (metis prod_cases4)
  obtain qs2 h2 d2 where f: "filterParticles v rnd ps h1 d1 = (qs2, h2, d2)"
    by (metis prod_cases3)
  obtain n2 m2 where c: "deflections v rnd ps h1 d1 = (n2, m2)"
    by (cases "deflections v rnd ps h1 d1") auto
  have dom1: "dom h1 = set binKeys" using updateParticlePosition_dom[OF u] Cons.prems(1) by simp
  have ih: "histogramTotal h2 = histogramTotal h1 + m2" "m2 \<le> n2"
    using Cons.IH[OF dom1 f c] by simp_all
  have h': "h' = h2" using Cons.prems(2) u f by simp
  have h1: "h1 = (if reachesNucleus p then recordAngle (calculateTrajectory v p (rnd d)) h else h)"
    using updateParticlePosition_histogram[OF u] .
  have nm: "(n, m) = (if reachesNucleus p
                      then (n2 + 1, if \<bar>calculateTrajectory v p (rnd d)\<bar> < 180 then m2 + 1 else m2)
                      else (n2, m2))"
    using Cons.prems(3) u c flag_flip[OF u] by simp
  show ?case
  proof (cases "reachesNucleus p")
    case True
    then show ?thesis
      using ih h' h1 nm histogramTotal_recordAngle[OF Cons.prems(1), of "calculateTrajectory v p (rnd d)"]
      by (simp split: if_splits)
  next
    case False
    then show ?thesis using ih h' h1 nm by simp
  qed
qed

lemma histogramTotal_initHistogram: "histogramTotal initHistogram = 0"
  by (simp add: histogramTotal_def binCount_def initHistogram_apply)

lemma step_total:
  assumes "dom (histogramDataRef s) = set binKeys" "histogramTotal (histogramDataRef s) = snd c"
    "snd c \<le> fst c"
  shows "histogramTotal (histogramDataRef (step rnd e s)) = snd (tally rnd e s c) \<and>
         snd (tally rnd e s c) \<le> fst (tally rnd e s c)"
proof (cases e)
  case (Frame v t)
  define s2 where "s2 = spawnParticle v rnd t (startClock t s)"
  have h2: "histogramDataRef s2 = histogramDataRef s"
    by (simp add: s2_def spawnParticle_def startClock_def split: option.splits)
  obtain qs h' d' where f: "filterParticles v rnd (particlesRef s2) (histogramDataRef s2) (drawn s2) = (qs, h', d')"
    by (metis prod_cases3)
  obtain n m where d: "deflections v rnd (particlesRef s2) (histogramDataRef s2) (drawn s2) = (n, m)"
    by (cases "deflections v rnd (particlesRef s2) (histogramDataRef s2) (drawn s2)") auto
  have dom2: "dom (histogramDataRef s2) = set binKeys" using assms(1) h2 by simp
  have t: "histogramTotal h' = histogramTotal (histogramDataRef s2) + m" "m \<le> n"
    using filterParticles_total[OF dom2 f d] by simp_all
  have "histogramDataRef (step rnd e s) = h'"
    using f by (simp add: Frame animate_def advanceParticles_def s2_def)
  moreover have "tally rnd e s c = (fst c + n, snd c + m)"
    using d by (simp add: Frame Let_def s2_def)
  ultimately show ?thesis using t h2 assms by simp
next
  case Reset
  then show ?thesis by (simp add: handleReset_def histogramTotal_initHistogram)
qed (use assms in \<open>simp_all add: handleToggleSimulation_def Let_def\<close>)

lemma run_total:
  assumes "dom (histogramDataRef s) = set binKeys" "histogramTotal (histogramDataRef s) = snd c"
    "snd c \<le> fst c"
  shows "histogramTotal (histogramDataRef (run rnd es s)) = snd (census rnd es s c) \<and>
         snd (census rnd es s c) \<le> fst (census rnd es s c)"
  using assms
proof (induction es arbitrary: s c)
  case Nil
  then show ?case by simp
next
  case (Cons e es)
  have "dom (histogramDataRef (step rnd e s)) = set binKeys"
    using step_dom[OF Cons.prems(1)] .
  moreover have "histogramTotal (histogramDataRef (step rnd e s)) = snd (tally rnd e s c)"
    "snd (tally rnd e s c) \<le> fst (tally rnd e s c)"
    using step_total[OF Cons.prems] by simp_all
  ultimately show ?case using Cons.IH[of "step rnd e s" "tally rnd e s c"] by simp
qed

section \<open>A deflection that no bin counts\<close>

lemma run_append: "run rnd (es @ fs) s = run rnd fs (run rnd es s)"
  by (induction es arbitrary: s) simp_all

lemma census_append:
  "census rnd (es @ fs) s c = census rnd fs (run rnd es s) (census rnd es s c)"
  by (induction es arbitrary: s c) simp_all

lemma reachesNucleus_iff:
  "reachesNucleus p \<longleftrightarrow> \<not> hasReachedNucleus p \<and> (px p - 300)\<^sup>2 + (py p - 200)\<^sup>2 \<le> 225"
proof -
  have "sqrt a \<le> 15 \<longleftrightarrow> a \<le> 225" for a :: real
  proof
    assume "sqrt a \<le> 15"
    then have "a \<le> 15\<^sup>2" by (rule sqrt_le_D)
    then show "a \<le> 225" by simp
  next
    assume "a \<le> 225"
    then show "sqrt a \<le> 15" by (intro real_le_lsqrt) simp_all
  qed
  then show ?thesis by (simp add: reachesNucleus_def WIDTH_def HEIGHT_def NUCLEUS_RADIUS_def)
qed

lemma cx_not_reaching: "k \<le> 190 \<Longrightarrow> \<not> reachesNucleus (cxParticle k)"
proof -
  assume "k \<le> 190"
  then have "(15::real) \<le> 300 - 1.5 * real k" by simp
  then have "(15::real)\<^sup>2 \<le> (300 - 1.5 * real k)\<^sup>2" by (intro power_mono) simp_all
  then have "225 \<le> (1.5 * real k - 300)\<^sup>2" by (simp add: power2_commute)
  moreover have "(0::real) < (200.01 - 200)\<^sup>2" by simp
  ultimately have "\<not> (1.5 * real k - 300)\<^sup>2 + (200.01 - 200)\<^sup>2 \<le> (225::real)" by linarith
  then show ?thesis unfolding reachesNucleus_iff cxParticle_def by simp
qed

lemma cx_reaching: "reachesNucleus (cxParticle 191)"
  by (simp add: reachesNucleus_iff cxParticle_def power2_eq_square)

lemma cx_update:
  assumes "k \<le> 190" "\<not> showPaths v"
  shows "updateParticlePosition v rnd (cxParticle k) h d = (True, cxParticle (Suc k), h, d)"
proof -
  have "real k \<le> 190" using assms(1) by simp
  then have "1.5 * real k + 1.5 \<le> (600::real)" by simp
  then show ?thesis
    using cx_not_reaching[OF assms(1)] assms(2)
    by (simp add: updateParticlePosition_def Let_def cxParticle_def WIDTH_def HEIGHT_def algebra_simps)
qed

lemma cx_filter:
  assumes "k \<le> 190" "\<not> showPaths v"
  shows "filterParticles v rnd [cxParticle k] h d = ([cxParticle (Suc k)], h, d)"
    and "deflections v rnd [cxParticle k] h d = (0, 0)"
  by (simp_all add: cx_update[OF assms]) (simp add: cxParticle_def)

lemma cxResume_fields:
  "counter cxResume = 1" "running cxResume" "\<not> showPaths cxResume"
  "nuclearCharge cxResume = 92" "alphaEnergy cxResume = 10"
  by (simp_all add: cxResume_def cxStart_def)

lemma cx_toggle:
  "handleToggleSimulation (cxSim False st k) = cxSim True None k"
  "handleToggleSimulation (cxSim True st k) = cxSim False st k"
  by (simp_all add: handleToggleSimulation_def cxSim_def Let_def cxResume_def cxStart_def)

lemma cx_frame_first:
  assumes "k \<le> 190"
  shows "animate cxResume rnd t (cxSim True None k) = cxSim True (Some t) (Suc k)"
    and "tally rnd (Frame cxResume t) (cxSim True None k) c = c"
proof -
  have s1: "startClock t (cxSim True None k) = cxSim True (Some t) k"
    by (simp add: startClock_def cxSim_def)
  have sp: "spawnParticle cxResume rnd t (cxSim True (Some t) k) = cxSim True (Some t) k"
    by (simp add: spawnParticle_def spawnCondition_def elapsed_def cxSim_def cxResume_fields EMISSION_INTERVAL_def)
  show "animate cxResume rnd t (cxSim True None k) = cxSim True (Some t) (Suc k)"
    unfolding animate_def s1 sp
    by (simp add: advanceParticles_def cxSim_def cx_filter[OF assms cxResume_fields(3)]
          del: filterParticles.simps)
  show "tally rnd (Frame cxResume t) (cxSim True None k) c = c"
    unfolding tally.simps s1 sp
    by (simp add: cxSim_def cx_filter[OF assms cxResume_fields(3)] del: deflections.simps)
qed

lemma cx_frame_next:
  assumes "k \<le> 190" "t0 \<noteq> 0" "t - t0 \<le> 100"
  shows "animate cxResume rnd t (cxSim True (Some t0) k) = cxSim True (Some t0) (Suc k)"
    and "tally rnd (Frame cxResume t) (cxSim True (Some t0) k) c = c"
proof -
  have s1: "startClock t (cxSim True (Some t0) k) = cxSim True (Some t0) k"
    using assms(2) by (simp add: startClock_def cxSim_def)
  have sp: "spawnParticle cxResume rnd t (cxSim True (Some t0) k) = cxSim True (Some t0) k"
    using assms(3)
    by (simp add: spawnParticle_def spawnCondition_def elapsed_def cxSim_def cxResume_fields EMISSION_INTERVAL_def)
  show "animate cxResume rnd t (cxSim True (Some t0) k) = cxSim True (Some t0) (Suc k)"
    unfolding animate_def s1 sp
    by (simp add: advanceParticles_def cxSim_def cx_filter[OF assms(1) cxResume_fields(3)]
          del: filterParticles.simps)
  show "tally rnd (Frame cxResume t) (cxSim True (Some t0) k) c = c"
    unfolding tally.simps s1 sp
    by (simp add: cxSim_def cx_filter[OF assms(1) cxResume_fields(3)] del: deflections.simps)
qed

lemma cx_session:
  assumes "k \<le> 185" "t \<noteq> 0"
  shows "run rnd (cxSession t) (cxSim False st k) = cxSim False (Some t) (k + 6)"
    and "census rnd (cxSession t) (cxSim False st k) c = c"
proof -
  have k: "k \<le> 190" "Suc k \<le> 190" "Suc (Suc k) \<le> 190" "Suc (Suc (Suc k)) \<le> 190"
    "Suc (Suc (Suc (Suc k))) \<le> 190" "Suc (Suc (Suc (Suc (Suc k)))) \<le> 190"
    using assms(1) by simp_all
  have e: "t + 16 - t \<le> 100" "t + 32 - t \<le> 100" "t + 48 - t \<le> 100" "t + 64 - t \<le> 100"
    "t + 80 - t \<le> 100" by simp_all
  show "run rnd (cxSession t) (cxSim False st k) = cxSim False (Some t) (k + 6)"
    unfolding cxSession_def run.simps step.simps cx_toggle
      cx_frame_first(1)[OF k(1)]
      cx_frame_next(1)[OF k(2) assms(2) e(1)] cx_frame_next(1)[OF k(3) assms(2) e(2)]
      cx_frame_next(1)[OF k(4) assms(2) e(3)] cx_frame_next(1)[OF k(5) assms(2) e(4)]
      cx_frame_next(1)[OF k(6) assms(2) e(5)]
    by (simp add: eval_nat_numeral)
  show "census rnd (cxSession t) (cxSim False st k) c = c"
    unfolding cxSession_def census.simps step.simps cx_toggle tally.simps(3-)
      cx_frame_first[OF k(1)]
      cx_frame_next[OF k(2) assms(2) e(1)] cx_frame_next[OF k(3) assms(2) e(2)]
      cx_frame_next[OF k(4) assms(2) e(3)] cx_frame_next[OF k(5) assms(2) e(4)]
      cx_frame_next[OF k(6) assms(2) e(5)]
    by simp
qed

lemma cx_sessions:
  assumes "k + 6 * n \<le> 191"
  shows "\<exists>st'. run rnd (concat (map (\<lambda>j. cxSession (2000 + 1000 * real j)) [0..<n])) (cxSim False st k)
                 = cxSim False st' (k + 6 * n) \<and>
               census rnd (concat (map (\<lambda>j. cxSession (2000 + 1000 * real j)) [0..<n])) (cxSim False st k) c
                 = c"
  using assms
proof (induction n)
  case 0
  then show ?case by auto
next
  case (Suc n)
  then have "k + 6 * n \<le> 191" by simp
  from Suc.IH[OF this] obtain st' where
    r: "run rnd (concat (map (\<lambda>j. cxSession (2000 + 1000 * real j)) [0..<n])) (cxSim False st k)
          = cxSim False st' (k + 6 * n)" and
    c: "census rnd (concat (map (\<lambda>j. cxSession (2000 + 1000 * real j)) [0..<n])) (cxSim False st k) c = c"
    by blast
  have le: "k + 6 * n \<le> 185" using Suc.prems by simp
  have ne: "2000 + 1000 * real n \<noteq> 0"
    by (metis add_nonneg_pos mult_nonneg_nonneg of_nat_0_le_iff less_numeral_extra(3) zero_le_numeral zero_less_numeral add.commute)
  have "run rnd (concat (map (\<lambda>j. cxSession (2000 + 1000 * real j)) [0..<Suc n])) (cxSim False st k)
          = cxSim False (Some (2000 + 1000 * real n)) (k + 6 * n + 6)"
    by (simp add: run_append r cx_session(1)[OF le ne])
  moreover have "census rnd (concat (map (\<lambda>j. cxSession (2000 + 1000 * real j)) [0..<Suc n])) (cxSim False st k) c = c"
    by (simp add: census_append r c cx_session(2)[OF le ne])
  ultimately show ?case by (auto simp: algebra_simps)
qed

lemma cx_created: "rnd 0 = 50005 / 100000 \<Longrightarrow> createParticle (rnd 0) = cxParticle 0"
  by (simp add: createParticle_def cxParticle_def HEIGHT_def Let_def)

lemma cx_prefix:
  assumes rnd: "rnd 0 = 50005 / 100000"
  shows "run rnd [SetNuclearCharge 92, SetAlphaEnergy 10, ToggleShowPaths, ToggleSimulation,
      Frame cxStart 1000, Frame cxStart 1016, ToggleSimulation] mounted = cxSim False (Some 1000) 1"
    and "census rnd [SetNuclearCharge 92, SetAlphaEnergy 10, ToggleShowPaths, ToggleSimulation,
      Frame cxStart 1000, Frame cxStart 1016, ToggleSimulation] mounted (0, 0) = (0, 0)"
proof -
  define s0 where "s0 = \<lparr>hooks = cxStart, particlesRef = [], histogramDataRef = initHistogram,
      startTimeRef = None, drawn = 0\<rparr>"
  define s1 where "s1 = s0\<lparr>startTimeRef := Some 1000\<rparr>"
  define s2 where "s2 = \<lparr>hooks = cxResume, particlesRef = [cxParticle 1],
      histogramDataRef = initHistogram, startTimeRef = Some 1000, drawn = 1\<rparr>"
  have sp: "\<not> showPaths cxStart" by (simp add: cxStart_def)
  have a: "run rnd [SetNuclearCharge 92, SetAlphaEnergy 10, ToggleShowPaths, ToggleSimulation] mounted = s0"
    "census rnd [SetNuclearCharge 92, SetAlphaEnergy 10, ToggleShowPaths, ToggleSimulation] mounted (0, 0) = (0, 0)"
    by (simp_all add: mounted_def s0_def cxStart_def handleToggleSimulation_def Let_def)
  have b: "animate cxStart rnd 1000 s0 = s1" "tally rnd (Frame cxStart 1000) s0 (0, 0) = (0, 0)"
    by (simp_all add: animate_def startClock_def spawnParticle_def spawnCondition_def elapsed_def
        advanceParticles_def s0_def s1_def cxStart_def Let_def)
  have c0: "spawnParticle cxStart rnd 1016 (startClock 1016 s1) =
      \<lparr>hooks = cxResume, particlesRef = [cxParticle 0],
       histogramDataRef = initHistogram, startTimeRef = Some 1000, drawn = 1\<rparr>"
    by (simp add: startClock_def spawnParticle_def spawnCondition_def elapsed_def
        s0_def s1_def cx_created[of rnd, OF rnd] MAX_PARTICLES_def EMISSION_INTERVAL_def)
       (simp add: cxStart_def cxResume_def)
  have c: "animate cxStart rnd 1016 s1 = s2" "tally rnd (Frame cxStart 1016) s1 (0, 0) = (0, 0)"
    unfolding animate_def tally.simps c0
    by (simp_all add: advanceParticles_def s2_def cx_filter[OF _ sp]
        del: filterParticles.simps deflections.simps)
  have d: "handleToggleSimulation s2 = cxSim False (Some 1000) 1"
    by (simp add: handleToggleSimulation_def s2_def cxSim_def cxResume_fields Let_def)
  have split: "[SetNuclearCharge 92, SetAlphaEnergy 10, ToggleShowPaths, ToggleSimulation,
      Frame cxStart 1000, Frame cxStart 1016, ToggleSimulation] =
      [SetNuclearCharge 92, SetAlphaEnergy 10, ToggleShowPaths, ToggleSimulation] @
      [Frame cxStart 1000, Frame cxStart 1016, ToggleSimulation]" by simp
  show "run rnd [SetNuclearCharge 92, SetAlphaEnergy 10, ToggleShowPaths, ToggleSimulation,
      Frame cxStart 1000, Frame cxStart 1016, ToggleSimulation] mounted = cxSim False (Some 1000) 1"
    unfolding split run_append a by (simp add: b c d)
  show "census rnd [SetNuclearCharge 92, SetAlphaEnergy 10, ToggleShowPaths, ToggleSimulation,
      Frame cxStart 1000, Frame cxStart 1016, ToggleSimulation] mounted (0, 0) = (0, 0)"
    unfolding split census_append a by (simp add: b c d del: tally.simps(1))
qed

lemma cx_flight:
  assumes rnd: "rnd 0 = 50005 / 100000"
  shows "run rnd cxApproach mounted = cxSim True (Some 40000) 191"
    and "census rnd cxApproach mounted (0, 0) = (0, 0)"
proof -
  let ?mid = "concat (map (\<lambda>k. cxSession (2000 + 1000 * real k)) [0..<31])"
  let ?flight = "[ToggleSimulation, Frame cxResume 40000, Frame cxResume 40016,
      Frame cxResume 40032, Frame cxResume 40048]"
  obtain st where
    m: "run rnd ?mid (cxSim False (Some 1000) 1) = cxSim False st 187"
       "census rnd ?mid (cxSim False (Some 1000) 1) (0, 0) = (0, 0)"
    using cx_sessions[of 1 31 rnd "Some 1000" "(0, 0)"] by auto
  have k: "(187::nat) \<le> 190" "Suc 187 \<le> 190" "Suc (Suc 187) \<le> 190" "Suc (Suc (Suc 187)) \<le> 190"
    by simp_all
  have e: "(40000::real) \<noteq> 0" "(40016::real) - 40000 \<le> 100" "(40032::real) - 40000 \<le> 100"
    "(40048::real) - 40000 \<le> 100" by simp_all
  have f: "run rnd ?flight (cxSim False st 187) = cxSim True (Some 40000) 191"
    unfolding run.simps step.simps cx_toggle cx_frame_first(1)[OF k(1)]
      cx_frame_next(1)[OF k(2) e(1) e(2)] cx_frame_next(1)[OF k(3) e(1) e(3)]
      cx_frame_next(1)[OF k(4) e(1) e(4)]
    by (simp add: eval_nat_numeral)
  have g: "census rnd ?flight (cxSim False st 187) (0, 0) = (0, 0)"
    unfolding census.simps step.simps cx_toggle tally.simps(3-) cx_frame_first[OF k(1)]
      cx_frame_next[OF k(2) e(1) e(2)] cx_frame_next[OF k(3) e(1) e(3)]
      cx_frame_next[OF k(4) e(1) e(4)]
    by simp
  show "run rnd cxApproach mounted = cxSim True (Some 40000) 191"
    unfolding cxApproach_def run_append cx_prefix[of rnd, OF rnd] m f ..
  show "census rnd cxApproach mounted (0, 0) = (0, 0)"
    unfolding cxApproach_def census_append run_append cx_prefix[of rnd, OF rnd] m g ..
qed

lemma cx_tanHalfTheta: "tanHalfTheta 92 10 (1 / 100) = 26496 / 1000"
  by (simp add: tanHalfTheta_closed)

lemma cx_angle_half: "\<bar>calculateTrajectory cxResume (cxParticle 191) (cxRandomHalf 1)\<bar> < 180"
proof -
  define t :: real where "t = 26496 / 1000"
  have "2 * arctan t < pi" using arctan_ubound[of t] by simp
  then have "2 * arctan t * (180 / pi) < 180" by (simp add: pos_divide_less_eq)
  moreover have "\<bar>calculateTrajectory cxResume (cxParticle 191) (cxRandomHalf 1)\<bar>
      = 2 * arctan t * (180 / pi)"
    using abs_calculateTrajectory[of "cxParticle 191" "cxRandomHalf 1" cxResume] cx_tanHalfTheta
    by (simp add: cxParticle_def cxResume_fields cxRandomHalf_def t_def)
  ultimately show ?thesis by simp
qed

lemma cx_last_tally:
  "tally rnd (Frame cxResume 40064) (cxSim True (Some 40000) 191) (0, 0) =
     (1, if \<bar>calculateTrajectory cxResume (cxParticle 191) (rnd 1)\<bar> < 180 then 1 else 0)"
proof -
  let ?s = "cxSim True (Some 40000) 191"
  have s1: "startClock 40064 ?s = ?s" by (simp add: startClock_def cxSim_def)
  have sp: "spawnParticle cxResume rnd 40064 ?s = ?s"
    by (simp add: spawnParticle_def spawnCondition_def elapsed_def cxSim_def cxResume_fields EMISSION_INTERVAL_def)
  obtain keep p' h' d' where
    u: "updateParticlePosition cxResume rnd (cxParticle 191) initHistogram (Suc 0) = (keep, p', h', d')"
    by (metis prod_cases4)
  have flip: "\<not> hasReachedNucleus (cxParticle 191) \<and> hasReachedNucleus p'"
    using flag_flip[OF u] cx_reaching by simp
  show ?thesis
    unfolding tally.simps s1 sp
    using flip by (simp add: cxSim_def u)
qed

lemma cx_angle: "180 \<le> \<bar>calculateTrajectory cxResume (cxParticle 191) (cxRandom 1)\<bar>"
proof -
  define t :: real where "t = 26496 / 1000"
  have t: "tanHalfTheta 92 10 (1 / 100) = t"
    by (simp add: tanHalfTheta_closed t_def)
  have "arctan (1 / t) \<le> 1 / t" by (rule arctan_le_self) (simp add: t_def)
  moreover have "arctan (1 / t) = pi / 2 - arctan t"
    using arctan_inverse[of t] by (simp add: t_def)
  ultimately have a: "pi / 2 - 4 / 100 \<le> arctan t" by (simp add: t_def)
  have "pi \<le> 2 * (pi / 2 - 4 / 100) * (1098 / 1000)" using pi_ge_two by simp
  also have "\<dots> \<le> 2 * arctan t * (1098 / 1000)" using a by simp
  finally have "180 \<le> 2 * arctan t * (1098 / 1000) * (180 / pi)"
    by (simp add: pos_le_divide_eq)
  moreover have "\<bar>calculateTrajectory cxResume (cxParticle 191) (cxRandom 1)\<bar>
      = 2 * arctan t * (1098 / 1000) * (180 / pi)"
    using abs_calculateTrajectory[of "cxParticle 191" "cxRandom 1" cxResume] t
    by (simp add: cxParticle_def cxResume_fields cxRandom_def t_def)
  ultimately show ?thesis by simp
qed

lemma cx_last_histogram:
  "histogramDataRef (animate cxResume cxRandom 40064 (cxSim True (Some 40000) 191)) = initHistogram"
proof -
  let ?s = "cxSim True (Some 40000) 191"
  have s1: "startClock 40064 ?s = ?s" by (simp add: startClock_def cxSim_def)
  have sp: "spawnParticle cxResume cxRandom 40064 ?s = ?s"
    by (simp add: spawnParticle_def spawnCondition_def elapsed_def cxSim_def cxResume_fields EMISSION_INTERVAL_def)
  obtain keep p' h' d' where
    u: "updateParticlePosition cxResume cxRandom (cxParticle 191) initHistogram (Suc 0) = (keep, p', h', d')"
    by (metis prod_cases4)
  have "\<not> \<bar>calculateTrajectory cxResume (cxParticle 191) (cxRandom 1)\<bar> < 180"
    using cx_angle by simp
  then have h': "h' = initHistogram"
    using updateParticlePosition_histogram[OF u] cx_reaching
      recordAngle_out_of_range[OF dom_initHistogram,
        of "calculateTrajectory cxResume (cxParticle 191) (cxRandom 1)"]
    by simp
  show ?thesis
    unfolding animate_def s1 sp
    by (simp add: advanceParticles_def cxSim_def u h' split: prod.splits)
qed

text \<open>
  C3. The claim: in every reachable state the sum over the eighteen bins is the number of
  particles whose flag went from false to true since the last reset. In the run \<open>cxRun\<close>
  one particle is deflected, by more than 180 degrees (\<open>cx_angle\<close>: twice the arc tangent
  of 26.496, times the random factor 1.098), its key is not one of the eighteen, and the
  histogram stays at zero.
\<close>

theorem histogram_total_counterexample:
  "histogramTotal (histogramDataRef (run cxRandom cxRun mounted))
     \<noteq> fst (census cxRandom cxRun mounted (0, 0))"
proof -
  have rnd: "cxRandom 0 = 50005 / 100000" by (simp add: cxRandom_def)
  have "histogramDataRef (run cxRandom cxRun mounted) = initHistogram"
    unfolding cxRun_def run_append cx_flight(1)[of cxRandom, OF rnd] by (simp add: cx_last_histogram)
  moreover have "census cxRandom cxRun mounted (0, 0) = (1, 0)"
    unfolding cxRun_def census_append cx_flight[of cxRandom, OF rnd]
    using cx_angle by (simp add: cx_last_tally del: tally.simps(1))
  ultimately show ?thesis by (simp add: histogramTotal_initHistogram)
qed

section \<open>The sum of the bins along a run\<close>

text \<open>
  C3, amended. In every state that a run of events reaches from the mounted component,
  the sum over the eighteen bins is the number of particles deflected since the last
  reset with an angle of magnitude below 180 degrees, which is at most the number of
  particles deflected since the last reset.
\<close>

theorem histogram_total:
  "histogramTotal (histogramDataRef (run rnd es mounted)) = snd (census rnd es mounted (0, 0)) \<and>
   snd (census rnd es mounted (0, 0)) \<le> fst (census rnd es mounted (0, 0))"
proof -
  have "dom (histogramDataRef mounted) = set binKeys"
    by (simp add: mounted_def dom_initHistogram)
  moreover have "histogramTotal (histogramDataRef mounted) = snd (0::nat, 0::nat)"
    by (simp add: mounted_def histogramTotal_initHistogram)
  ultimately show ?thesis by (rule run_total) simp
qed

theorem histogram_total_witness:
  "histogramTotal (histogramDataRef (run cxRandomHalf cxRun mounted)) = 1 \<and>
   census cxRandomHalf cxRun mounted (0, 0) = (1, 1)"
proof -
  have rnd: "cxRandomHalf 0 = 50005 / 100000" by (simp add: cxRandomHalf_def)
  have "census cxRandomHalf cxRun mounted (0, 0) = (1, 1)"
    unfolding cxRun_def census_append cx_flight[of cxRandomHalf, OF rnd]
    using cx_angle_half by (simp add: cx_last_tally del: tally.simps(1))
  then show ?thesis using histogram_total[of cxRandomHalf cxRun] by simp
qed

text \<open>
  An instance of C6: the particle of \<open>cxRun\<close> at x = 286.5, updated twice. The first call
  deflects it, the second does not.
\<close>

theorem deflected_once_witness:
  "flagTransitions (lifetime cxRandom [(cxResume, initHistogram, 1), (cxResume, initHistogram, 4)]
      (cxParticle 191)) = 1 \<and>
   velocityKept (lifetime cxRandom [(cxResume, initHistogram, 1), (cxResume, initHistogram, 4)]
      (cxParticle 191))"
proof -
  obtain k1 p1 h1 d1 where
    u1: "updateParticlePosition cxResume cxRandom (cxParticle 191) initHistogram (Suc 0) = (k1, p1, h1, d1)"
    by (metis prod_cases4)
  obtain k2 p2 h2 d2 where
    u2: "updateParticlePosition cxResume cxRandom p1 initHistogram 4 = (k2, p2, h2, d2)"
    by (metis prod_cases4)
  have f0: "\<not> hasReachedNucleus (cxParticle 191)" by (simp add: cxParticle_def)
  have f1: "hasReachedNucleus p1"
    using updateParticlePosition_flag[OF u1] cx_reaching by simp
  have f2: "hasReachedNucleus p2"
    using updateParticlePosition_flag[OF u2] f1 by simp
  have L: "lifetime cxRandom [(cxResume, initHistogram, 1), (cxResume, initHistogram, 4)]
      (cxParticle 191) = [cxParticle 191, p1, p2]"
    by (simp add: u1 u2)
  have "flagTransitions [cxParticle 191, p1, p2] = 1" using f0 f1 f2 by simp
  then show ?thesis
    using deflected_once[of cxRandom "[(cxResume, initHistogram, 1), (cxResume, initHistogram, 4)]"
        "cxParticle 191"]
    by (simp only: L)
qed

section \<open>The pacing of the spawner\<close>

lemma staleRun_state:
  "run staleRandom staleRun mounted =
     \<lparr>hooks = staleStart\<lparr>counter := 1\<rparr>,
      particlesRef = [\<lparr>px = 1.5, py = 200, vx = 1.5, vy = 0, impactParameter = 0,
                       hasReachedNucleus = False, path = [(0, 200), (1.5, 200)]\<rparr>],
      histogramDataRef = initHistogram,
      startTimeRef = Some 1000,
      drawn = 1\<rparr>"
proof -
  have a: "handleToggleSimulation mounted =
      \<lparr>hooks = staleStart, particlesRef = [], histogramDataRef = initHistogram,
       startTimeRef = None, drawn = 0\<rparr>"
    by (simp add: handleToggleSimulation_def mounted_def staleStart_def Let_def)
  have b: "animate staleStart staleRandom 1000
      \<lparr>hooks = staleStart, particlesRef = [], histogramDataRef = initHistogram,
       startTimeRef = None, drawn = 0\<rparr> =
      \<lparr>hooks = staleStart, particlesRef = [], histogramDataRef = initHistogram,
       startTimeRef = Some 1000, drawn = 0\<rparr>"
    by (simp add: animate_def startClock_def spawnParticle_def spawnCondition_def elapsed_def
        advanceParticles_def staleStart_def)
  have c: "spawnParticle staleStart staleRandom 1016 (startClock 1016
      \<lparr>hooks = staleStart, particlesRef = [], histogramDataRef = initHistogram,
       startTimeRef = Some 1000, drawn = 0\<rparr>) =
      \<lparr>hooks = staleStart\<lparr>counter := 1\<rparr>,
       particlesRef = [\<lparr>px = 0, py = 200, vx = 1.5, vy = 0, impactParameter = 0,
                       hasReachedNucleus = False, path = [(0, 200)]\<rparr>],
       histogramDataRef = initHistogram, startTimeRef = Some 1000, drawn = 1\<rparr>"
    by (simp add: startClock_def spawnParticle_def spawnCondition_def elapsed_def
        createParticle_def staleRandom_def HEIGHT_def MAX_PARTICLES_def EMISSION_INTERVAL_def Let_def)
       (simp add: staleStart_def)
  have d: "updateParticlePosition staleStart staleRandom
      \<lparr>px = 0, py = 200, vx = 1.5, vy = 0, impactParameter = 0,
       hasReachedNucleus = False, path = [(0, 200)]\<rparr> initHistogram 1 =
      (True, \<lparr>px = 1.5, py = 200, vx = 1.5, vy = 0, impactParameter = 0,
              hasReachedNucleus = False, path = [(0, 200), (1.5, 200)]\<rparr>, initHistogram, 1)"
    by (simp add: updateParticlePosition_def reachesNucleus_iff Let_def WIDTH_def HEIGHT_def)
       (simp add: staleStart_def)
  have e: "animate staleStart staleRandom 1016
      \<lparr>hooks = staleStart, particlesRef = [], histogramDataRef = initHistogram,
       startTimeRef = Some 1000, drawn = 0\<rparr> =
      \<lparr>hooks = staleStart\<lparr>counter := 1\<rparr>,
       particlesRef = [\<lparr>px = 1.5, py = 200, vx = 1.5, vy = 0, impactParameter = 0,
                       hasReachedNucleus = False, path = [(0, 200), (1.5, 200)]\<rparr>],
       histogramDataRef = initHistogram, startTimeRef = Some 1000, drawn = 1\<rparr>"
    unfolding animate_def c using d by (simp add: advanceParticles_def)
  show ?thesis by (simp add: staleRun_def a b e)
qed

text \<open>
  C7. The claim: a frame creates a particle exactly when the elapsed time exceeds the
  number of particles emitted times \<^verbatim>\<open>EMISSION_INTERVAL\<close>, the store holds fewer than 100
  particles and \<^verbatim>\<open>running\<close> is true. After \<open>staleRun\<close> one particle has been emitted and
  the counter is 1. At the next frame, 32 ms after the start, the elapsed time does not
  exceed 100, but the callback still holds the counter 0 (\<open>staleStart\<close> is the state of
  the render that followed the start), and a second particle is created.
\<close>

theorem spawner_stale_counter:
  "hooks (handleToggleSimulation mounted) = staleStart \<and>
   counter (hooks (run staleRandom staleRun mounted)) = 1 \<and>
   length (particlesRef (run staleRandom staleRun mounted)) = 1 \<and>
   running (hooks (run staleRandom staleRun mounted)) \<and>
   elapsed 1032 (startClock 1032 (run staleRandom staleRun mounted)) = 32 \<and>
   elapsed 1032 (startClock 1032 (run staleRandom staleRun mounted))
     \<le> real (counter (hooks (run staleRandom staleRun mounted))) * EMISSION_INTERVAL \<and>
   length (particlesRef (spawnParticle staleStart staleRandom 1032
      (startClock 1032 (run staleRandom staleRun mounted)))) = 2 \<and>
   counter (hooks (animate staleStart staleRandom 1032 (run staleRandom staleRun mounted))) = 2"
proof -
  have a: "hooks (handleToggleSimulation mounted) = staleStart"
    by (simp add: handleToggleSimulation_def mounted_def staleStart_def Let_def)
  have c: "counter (hooks (advanceParticles v rnd s')) = counter (hooks s')" for v rnd s'
    by (simp add: advanceParticles_def split: prod.splits)
  show ?thesis
    unfolding staleRun_state
    by (simp add: a c animate_def startClock_def elapsed_def spawnParticle_def spawnCondition_def
        EMISSION_INTERVAL_def MAX_PARTICLES_def)
       (simp add: staleStart_def)
qed

text \<open>
  The inversion of the energy dependence at an input that the component passes to
  \<^verbatim>\<open>calculateTrajectory\<close>: a particle created with impact parameter 10 is within 15 of
  the centre at x = 289.5.
\<close>

lemma calculateTrajectory_energy_reachable_input:
  "reachesNucleus ((createParticle (11/20))\<lparr>px := 289.5\<rparr>) \<and>
   \<bar>calculateTrajectory \<lparr>running = True, counter = 0, nuclearCharge = 79, alphaEnergy = 5,
        showPaths = True, showHistogram = True\<rparr> ((createParticle (11/20))\<lparr>px := 289.5\<rparr>) (1/2)\<bar>
   < \<bar>calculateTrajectory \<lparr>running = True, counter = 0, nuclearCharge = 79, alphaEnergy = 10,
        showPaths = True, showHistogram = True\<rparr> ((createParticle (11/20))\<lparr>px := 289.5\<rparr>) (1/2)\<bar>"
proof -
  have "reachesNucleus ((createParticle (11/20))\<lparr>px := 289.5\<rparr>)"
    by (simp add: reachesNucleus_iff createParticle_def HEIGHT_def Let_def power2_eq_square)
  then show ?thesis
    using calculateTrajectory_energy_mono[of "(createParticle (11/20))\<lparr>px := 289.5\<rparr>"
      "\<lparr>running = True, counter = 0, nuclearCharge = 79, alphaEnergy = 5,
        showPaths = True, showHistogram = True\<rparr>" 10 "1/2"]
    by (simp add: createParticle_def HEIGHT_def)
qed

end
